theory Spec2Isabelle
  imports Main
begin

section \<open>Local daemon services of zenml: the data model\<close>

text \<open>
  The development embeds \<^verbatim>\<open>src/zenml/services/local/local_service.py\<close>: the HTTP
  endpoint health monitor, the endpoint of a local daemon with its TCP port lookup, and
  the local daemon service with its start, stop and status operations. Python methods
  that mutate \<^verbatim>\<open>self\<close> or talk to the operating system take the state they read and
  return the state they leave; an exception is a value of type \<open>error\<close>. Calls of the
  logger are left out.
\<close>

subsection \<open>Declarations of the base service module\<close>

text \<open>
  Modelled from the spec: the module \<^verbatim>\<open>zenml.services.base_service\<close> is imported by the
  source but is not part of it. The spec names the lifecycle states \<^verbatim>\<open>INACTIVE\<close>,
  \<^verbatim>\<open>STARTING\<close>, \<^verbatim>\<open>ACTIVE\<close> and \<^verbatim>\<open>ERROR\<close>.
\<close>

datatype ServiceState = INACTIVE | STARTING | ACTIVE | ERROR

text \<open>
  Modelled from the spec: the endpoint protocol of the base module, "TCP / HTTP / other".
\<close>

datatype ServiceEndpointProtocol = TCP | HTTP | OTHER

subsection \<open>Python values\<close>

text \<open>
  The truth value Python gives to an \<^verbatim>\<open>Optional[int]\<close>, an \<^verbatim>\<open>Optional[bool]\<close>
  and an \<^verbatim>\<open>Optional[str]\<close> in a condition: \<^verbatim>\<open>None\<close>, \<^verbatim>\<open>0\<close>, \<^verbatim>\<open>False\<close> and the
  empty string are false.
\<close>

fun truthy_int :: "int option \<Rightarrow> bool" where
  "truthy_int None = False"
| "truthy_int (Some n) = (n \<noteq> 0)"

fun truthy_bool :: "bool option \<Rightarrow> bool" where
  "truthy_bool None = False"
| "truthy_bool (Some b) = b"

fun truthy_str :: "string option \<Rightarrow> bool" where
  "truthy_str None = False"
| "truthy_str (Some s) = (s \<noteq> [])"

text \<open>The decimal text of an integer, as \<^verbatim>\<open>str\<close> and an f-string produce it.\<close>

definition digit_char :: "nat \<Rightarrow> char" where
  "digit_char d = ''0123456789'' ! d"

function str_nat :: "nat \<Rightarrow> string" where
  "str_nat n = (if n < 10 then [digit_char n] else str_nat (n div 10) @ [digit_char (n mod 10)])"
  by pat_completeness auto
termination
  by (relation "measure (\<lambda>n. n)") auto

declare str_nat.simps [simp del]

definition str_int :: "int \<Rightarrow> string" where
  "str_int i = (if i < 0 then CHR ''-'' # str_nat (nat (- i)) else str_nat (nat i))"

text \<open>
  The arguments of an exception are strings and integers. \<^verbatim>\<open>IOError\<close> keeps the tuple
  of arguments it was raised with; \<^verbatim>\<open>OverflowError\<close> is what \<^verbatim>\<open>socket.bind\<close> raises
  for a port outside 0..65535, and \<^verbatim>\<open>ProcessLookupError\<close> what \<^verbatim>\<open>os.getpgid\<close>
  raises for a pid without process. \<^verbatim>\<open>os.killpg\<close> raises \<^verbatim>\<open>ProcessLookupError\<close> for
  a process group that is gone and \<^verbatim>\<open>PermissionError\<close> for one the caller may not
  signal.
\<close>

datatype pyval = PStr string | PInt int

datatype error = IOError "pyval list" | OverflowError | ProcessLookupError | PermissionError

subsection \<open>Configuration and status records\<close>

record HttpEndpointHealthMonitorConfig =
  healthcheck_uri_path :: "string option"
  http_status_code :: "int option"
  http_timeout :: "int option"

definition DEFAULT_HTTP_HEALTHCHECK_TIMEOUT :: int where
  "DEFAULT_HTTP_HEALTHCHECK_TIMEOUT = 5"

text \<open>The defaults of the monitor configuration: expected code 200, timeout 5 seconds.\<close>

definition default_monitor_config :: "string option \<Rightarrow> HttpEndpointHealthMonitorConfig" where
  "default_monitor_config path =
     \<lparr>healthcheck_uri_path = path, http_status_code = Some 200,
      http_timeout = Some DEFAULT_HTTP_HEALTHCHECK_TIMEOUT\<rparr>"

record LocalDaemonServiceEndpointConfig =
  config_protocol :: "ServiceEndpointProtocol option"
  config_port :: "int option"
  allocate_port :: "bool option"

text \<open>
  Modelled from the spec: the fields of \<^verbatim>\<open>ServiceEndpointStatus\<close> of the base module,
  "protocol, hostname, port, uri"; the local daemon endpoint status adds none.
\<close>

record LocalDaemonServiceEndpointStatus =
  status_protocol :: "ServiceEndpointProtocol option"
  hostname :: "string option"
  status_port :: "int option"
  uri :: "string option"

record LocalDaemonServiceEndpoint =
  endpoint_config :: LocalDaemonServiceEndpointConfig
  endpoint_status :: LocalDaemonServiceEndpointStatus
  monitor :: "HttpEndpointHealthMonitorConfig option"

text \<open>
  Modelled from the spec: \<^verbatim>\<open>ServiceStatus\<close> of the base module holds the lifecycle
  state and the last error message; \<^verbatim>\<open>LocalDaemonServiceStatus\<close> adds the pid.
\<close>

record LocalDaemonServiceStatus =
  state :: ServiceState
  last_error :: string
  pid :: "int option"

record LocalDaemonService =
  status :: LocalDaemonServiceStatus
  endpoint :: "LocalDaemonServiceEndpoint option"

subsection \<open>The operating system and the network\<close>

datatype signal = SIGINT | SIGKILL

text \<open>
  What \<^verbatim>\<open>requests.head\<close> does: it returns a response with a status code, or raises.
  For a raised exception the constructor is the first \<^verbatim>\<open>except\<close> clause of
  \<^verbatim>\<open>check_endpoint_status\<close> whose class the exception is an instance of, with the
  text \<^verbatim>\<open>str(e)\<close>.
\<close>

datatype head_outcome =
    Response int
  | ConnectionError string
  | Timeout string
  | RequestException string

text \<open>
  The part of the machine the service code reads and changes: the process table (pid to
  process group id), the ports a socket can be bound to, the answer of the network to a
  HEAD request, the answer of the system to a signal for a process group (\<open>None\<close> when
  it accepts the signal, the exception otherwise), and what the code has done so far:
  requests sent, signals it has asked the system to send to process groups (the calls of
  \<^verbatim>\<open>os.killpg\<close>, accepted or not), files written, processes launched.
\<close>

record os_world =
  processes :: "int \<rightharpoonup> int"
  can_bind :: "int \<Rightarrow> bool"
  head_reply :: "string \<Rightarrow> int option \<Rightarrow> head_outcome"
  http_requests :: "(string \<times> int option) list"
  kill_reply :: "int \<Rightarrow> signal \<Rightarrow> error option"
  signals_sent :: "(int \<times> signal) list"
  own_pgid :: int
  next_pid :: int
  launched :: "(string list \<times> (string \<times> string) list \<times> bool) list"
  sys_executable :: string
  environ :: "(string \<times> string) list"
  next_tempfile :: string
  files_written :: "(string \<times> string) list"

text \<open>\<^verbatim>\<open>psutil.pid_exists\<close>: the process table has an entry for the pid.\<close>

definition pid_exists :: "os_world \<Rightarrow> int \<Rightarrow> bool" where
  "pid_exists w p = (processes w p \<noteq> None)"

text \<open>\<^verbatim>\<open>requests.head(uri, timeout=t)\<close>: the request is sent and the outcome returned.\<close>

definition requests_head :: "os_world \<Rightarrow> string \<Rightarrow> int option \<Rightarrow> head_outcome \<times> os_world" where
  "requests_head w u t = (head_reply w u t, w\<lparr>http_requests := http_requests w @ [(u, t)]\<rparr>)"

section \<open>The HTTP endpoint health monitor\<close>

definition get_healthcheck_uri ::
  "HttpEndpointHealthMonitorConfig \<Rightarrow> LocalDaemonServiceEndpoint \<Rightarrow> string option" where
  "get_healthcheck_uri config ep =
     (if \<not> truthy_str (uri (endpoint_status ep)) then None
      else Some (the (uri (endpoint_status ep)) @
                 (if truthy_str (healthcheck_uri_path config)
                  then the (healthcheck_uri_path config) else ''/'')))"

definition check_endpoint_status ::
  "HttpEndpointHealthMonitorConfig \<Rightarrow> os_world \<Rightarrow> LocalDaemonServiceEndpoint
     \<Rightarrow> (ServiceState \<times> string option) \<times> os_world" where
  "check_endpoint_status config w ep =
     (let check_uri = get_healthcheck_uri config ep in
      if \<not> truthy_str check_uri then ((ERROR, Some ''No healthcheck URI available''), w)
      else
        (case requests_head w (the check_uri) (http_timeout config) of
           (Response status_code, w') \<Rightarrow>
             if Some status_code = http_status_code config then ((ACTIVE, None), w')
             else ((ERROR, Some (''service endpoint healthcheck returned HTTP status code ''
                                   @ str_int status_code)), w')
         | (ConnectionError e, w') \<Rightarrow>
             ((ERROR, Some (''cannot connect to service API: '' @ e)), w')
         | (Timeout e, w') \<Rightarrow>
             ((ERROR, Some (''service API healthcheck request timed out: '' @ e)), w')
         | (RequestException e, w') \<Rightarrow>
             ((ERROR, Some (''unexpected error encountered while checking ''
                              @ ''the service API status: '' @ e)), w')))"

section \<open>The endpoint of a local daemon\<close>

definition SERVICE_PORT_RANGE :: "int \<times> int" where
  "SERVICE_PORT_RANGE = (8000, 65535)"

text \<open>
  \<^verbatim>\<open>port_is_available\<close> binds a socket to the port and releases it: \<^verbatim>\<open>True\<close> when the
  bind succeeds, \<^verbatim>\<open>False\<close> when it raises \<^verbatim>\<open>OSError\<close>. A port number outside
  0..65535 makes \<^verbatim>\<open>bind\<close> raise \<^verbatim>\<open>OverflowError\<close>, which the handler does not catch.
\<close>

definition port_is_available :: "os_world \<Rightarrow> int \<Rightarrow> error + bool" where
  "port_is_available w port =
     (if port < 0 \<or> 65535 < port then Inl OverflowError else Inr (can_bind w port))"

text \<open>
  The loop \<^verbatim>\<open>for port in range(lo, hi): if self.port_is_available(port): return port\<close>,
  from the port it is at; \<open>None\<close> when the range is used up.
\<close>

function scan_ports :: "os_world \<Rightarrow> int \<Rightarrow> int \<Rightarrow> error + int option" where
  "scan_ports w port stop =
     (if stop \<le> port then Inr None
      else (case port_is_available w port of
              Inl e \<Rightarrow> Inl e
            | Inr True \<Rightarrow> Inr (Some port)
            | Inr False \<Rightarrow> scan_ports w (port + 1) stop))"
  by pat_completeness auto
termination
  by (relation "measure (\<lambda>(w, port, stop). nat (stop - port))") auto

declare scan_ports.simps [simp del]

text \<open>The last resort of \<^verbatim>\<open>_lookup_free_port\<close>: the scan of the range, and the raise after it.\<close>

definition lookup_in_range :: "os_world \<Rightarrow> error + int" where
  "lookup_in_range w =
     (case scan_ports w (fst SERVICE_PORT_RANGE) (snd SERVICE_PORT_RANGE) of
        Inl e \<Rightarrow> Inl e
      | Inr (Some port) \<Rightarrow> Inr port
      | Inr None \<Rightarrow>
          Inl (IOError [PStr ''No free TCP ports found in the range %d - %d'',
                        PInt (fst SERVICE_PORT_RANGE), PInt (snd SERVICE_PORT_RANGE)]))"

text \<open>The second step: the port of the status, when there is one and it is available.\<close>

definition lookup_last_used :: "os_world \<Rightarrow> LocalDaemonServiceEndpoint \<Rightarrow> error + int" where
  "lookup_last_used w ep =
     (if truthy_int (status_port (endpoint_status ep)) then
        (case port_is_available w (the (status_port (endpoint_status ep))) of
           Inl e \<Rightarrow> Inl e
         | Inr True \<Rightarrow> Inr (the (status_port (endpoint_status ep)))
         | Inr False \<Rightarrow> lookup_in_range w)
      else lookup_in_range w)"

definition lookup_free_port :: "os_world \<Rightarrow> LocalDaemonServiceEndpoint \<Rightarrow> error + int" where
  "lookup_free_port w ep =
     (if truthy_int (config_port (endpoint_config ep)) then
        (case port_is_available w (the (config_port (endpoint_config ep))) of
           Inl e \<Rightarrow> Inl e
         | Inr True \<Rightarrow> Inr (the (config_port (endpoint_config ep)))
         | Inr False \<Rightarrow>
             if \<not> truthy_bool (allocate_port (endpoint_config ep)) then
               Inl (IOError [PStr (''TCP port ''
                                     @ str_int (the (config_port (endpoint_config ep)))
                                     @ '' is not available.'')])
             else lookup_last_used w ep)
      else lookup_last_used w ep)"

text \<open>
  \<^verbatim>\<open>prepare_for_start\<close> writes protocol and hostname, then the port found. When the
  lookup raises, the two fields written before stay written.
\<close>

definition prepare_for_start ::
  "os_world \<Rightarrow> LocalDaemonServiceEndpoint \<Rightarrow> error option \<times> LocalDaemonServiceEndpoint" where
  "prepare_for_start w ep =
     (let ep1 = ep\<lparr>endpoint_status := (endpoint_status ep)
                     \<lparr>status_protocol := config_protocol (endpoint_config ep),
                      hostname := Some ''localhost''\<rparr>\<rparr>
      in (case lookup_free_port w ep1 of
            Inl e \<Rightarrow> (Some e, ep1)
          | Inr port \<Rightarrow>
              (None, ep1\<lparr>endpoint_status := (endpoint_status ep1)\<lparr>status_port := Some port\<rparr>\<rparr>)))"

section \<open>The local daemon service\<close>

text \<open>
  A method of the service runs on the machine and the service object; it returns what the
  Python returns (or the exception raised) and the two as it leaves them.
\<close>

type_synonym sys = "os_world \<times> LocalDaemonService"

definition check_status :: "sys \<Rightarrow> (ServiceState \<times> string option) \<times> sys" where
  "check_status s =
     (case s of (w, svc) \<Rightarrow>
        if \<not> truthy_int (pid (status svc)) \<or> \<not> pid_exists w (the (pid (status svc)))
        then ((ERROR, Some ''service daemon is not running''), (w, svc))
        else ((ACTIVE, None), (w, svc)))"

text \<open>
  The default \<^verbatim>\<open>_get_daemon_cmd\<close>: the service is written as JSON to a fresh temporary
  file with suffix \<^verbatim>\<open>.json\<close>, and the command runs the daemon entrypoint module on
  that file, in a copy of the environment. The serialisation \<^verbatim>\<open>to_json\<close> belongs to
  the base class and is a parameter.
\<close>

type_synonym daemon_cmd = "string list \<times> (string \<times> string) list"

definition get_daemon_cmd ::
  "(LocalDaemonService \<Rightarrow> string) \<Rightarrow> sys \<Rightarrow> daemon_cmd \<times> sys" where
  "get_daemon_cmd to_json s =
     (case s of (w, svc) \<Rightarrow>
        let cfg_file = next_tempfile w @ ''.json'';
            w' = w\<lparr>files_written := files_written w @ [(cfg_file, to_json svc)]\<rparr>;
            command = [sys_executable w', ''-m'',
                       ''zenml.services.local.local_daemon_entrypoint'',
                       ''--config-file'', cfg_file];
            command_env = environ w'
        in ((command, command_env), (w', svc)))"

text \<open>
  \<^verbatim>\<open>subprocess.Popen(command, env=..., start_new_session=...)\<close>: the child gets the
  next pid. With a new session it leads a process group of its own, whose id is its pid;
  without, it stays in the group of the caller.
\<close>

definition Popen :: "os_world \<Rightarrow> string list \<Rightarrow> (string \<times> string) list \<Rightarrow> bool \<Rightarrow> int \<times> os_world" where
  "Popen w command env start_new_session =
     (let p = next_pid w in
      (p, w\<lparr>processes := (processes w)(p \<mapsto> (if start_new_session then p else own_pgid w)),
             next_pid := p + 1,
             launched := launched w @ [(command, env, start_new_session)]\<rparr>))"

definition getpgid :: "os_world \<Rightarrow> int \<Rightarrow> error + int" where
  "getpgid w p = (case processes w p of None \<Rightarrow> Inl ProcessLookupError | Some g \<Rightarrow> Inr g)"

text \<open>
  \<^verbatim>\<open>os.killpg\<close> asks the system to send the signal to the group and returns, or raises
  what the system answers; it waits for nothing.
\<close>

definition killpg :: "os_world \<Rightarrow> int \<Rightarrow> signal \<Rightarrow> error option \<times> os_world" where
  "killpg w pgrp sig =
     (kill_reply w pgrp sig, w\<lparr>signals_sent := signals_sent w @ [(pgrp, sig)]\<rparr>)"

text \<open>
  \<^verbatim>\<open>_start_daemon\<close> calls \<^verbatim>\<open>self._get_daemon_cmd()\<close>, which a subclass may override:
  the command builder is the first argument.
\<close>

definition start_daemon :: "(sys \<Rightarrow> daemon_cmd \<times> sys) \<Rightarrow> sys \<Rightarrow> error option \<times> sys" where
  "start_daemon daemon_cmd s =
     (case s of (w, svc) \<Rightarrow>
        if truthy_int (pid (status svc)) \<and> pid_exists w (the (pid (status svc)))
        then (None, (w, svc\<lparr>status := (status svc)\<lparr>pid := None\<rparr>\<rparr>))
        else
          (case (case endpoint svc of
                   None \<Rightarrow> (None, svc)
                 | Some ep \<Rightarrow>
                     (case prepare_for_start w ep of
                        (r, ep') \<Rightarrow> (r, svc\<lparr>endpoint := Some ep'\<rparr>))) of
             (Some e, svc1) \<Rightarrow> (Some e, (w, svc1))
           | (None, svc1) \<Rightarrow>
               (case daemon_cmd (w, svc1) of
                  ((command, command_env), (w2, svc2)) \<Rightarrow>
                    (case Popen w2 command command_env True of
                       (p, w3) \<Rightarrow>
                         (None, (w3, svc2\<lparr>status := (status svc2)\<lparr>pid := Some p\<rparr>\<rparr>))))))"

definition stop_daemon :: "bool option \<Rightarrow> sys \<Rightarrow> error option \<times> sys" where
  "stop_daemon force s =
     (case s of (w, svc) \<Rightarrow>
        if \<not> truthy_int (pid (status svc)) \<or> \<not> pid_exists w (the (pid (status svc)))
        then (None, (w, svc\<lparr>status := (status svc)\<lparr>pid := None\<rparr>\<rparr>))
        else
          (case getpgid w (the (pid (status svc))) of
             Inl e \<Rightarrow> (Some e, (w, svc))
           | Inr pgrp \<Rightarrow>
               (let sig = (if truthy_bool force then SIGKILL else SIGINT)
                in (case killpg w pgrp sig of (r, w') \<Rightarrow> (r, (w', svc))))))"

definition provision :: "(sys \<Rightarrow> daemon_cmd \<times> sys) \<Rightarrow> sys \<Rightarrow> error option \<times> sys" where
  "provision daemon_cmd s = start_daemon daemon_cmd s"

definition deprovision :: "bool option \<Rightarrow> sys \<Rightarrow> error option \<times> sys" where
  "deprovision force s = stop_daemon force s"

section \<open>Vocabulary of the properties\<close>

text \<open>
  The predicates below are not functions of the source; they name the situations the
  properties speak about, in terms of what the source's own checks return.
\<close>

text \<open>The daemon is alive: a pid is recorded and the process exists.\<close>

definition daemon_alive :: "sys \<Rightarrow> bool" where
  "daemon_alive s =
     (truthy_int (pid (status (snd s))) \<and> pid_exists (fst s) (the (pid (status (snd s)))))"

text \<open>A port is given and \<^verbatim>\<open>port_is_available\<close> returns \<^verbatim>\<open>True\<close>, or \<^verbatim>\<open>False\<close>, for it.\<close>

definition port_free :: "os_world \<Rightarrow> int option \<Rightarrow> bool" where
  "port_free w p = (truthy_int p \<and> port_is_available w (the p) = Inr True)"

definition port_busy :: "os_world \<Rightarrow> int option \<Rightarrow> bool" where
  "port_busy w p = (truthy_int p \<and> port_is_available w (the p) = Inr False)"

text \<open>
  The lookup goes on after the configured port: none is configured, or the configured one
  is busy and \<^verbatim>\<open>allocate_port\<close> is on.
\<close>

definition may_continue :: "os_world \<Rightarrow> LocalDaemonServiceEndpoint \<Rightarrow> bool" where
  "may_continue w ep =
     (\<not> truthy_int (config_port (endpoint_config ep))
      \<or> (port_busy w (config_port (endpoint_config ep))
          \<and> truthy_bool (allocate_port (endpoint_config ep))))"

text \<open>The status offers no port to reuse: it has none, or the one it has is busy.\<close>

definition no_last_port :: "os_world \<Rightarrow> LocalDaemonServiceEndpoint \<Rightarrow> bool" where
  "no_last_port w ep =
     (\<not> truthy_int (status_port (endpoint_status ep))
      \<or> port_busy w (status_port (endpoint_status ep)))"

text \<open>
  The ports the scan visits are those of \<^verbatim>\<open>range(8000, 65535)\<close>: 8000 up to 65534.
  \<open>r\<close> is the first of them a socket can be bound to; or there is none.
\<close>

definition first_free_in_range :: "os_world \<Rightarrow> int \<Rightarrow> bool" where
  "first_free_in_range w r =
     (r \<in> {8000..<65535} \<and> can_bind w r \<and> (\<forall>p\<in>{8000..<r}. \<not> can_bind w p))"

definition range_exhausted :: "os_world \<Rightarrow> bool" where
  "range_exhausted w = (\<forall>p\<in>{8000..<65535}. \<not> can_bind w p)"

text \<open>The two I/O errors of the port lookup, with the arguments the source raises them with.\<close>

definition port_busy_error :: "int \<Rightarrow> error" where
  "port_busy_error p = IOError [PStr (''TCP port '' @ str_int p @ '' is not available.'')]"

definition no_free_port_error :: error where
  "no_free_port_error =
     IOError [PStr ''No free TCP ports found in the range %d - %d'', PInt 8000, PInt 65535]"

text \<open>The service with the pid of its status set to \<^verbatim>\<open>None\<close>.\<close>

definition clear_pid :: "LocalDaemonService \<Rightarrow> LocalDaemonService" where
  "clear_pid svc = svc\<lparr>status := (status svc)\<lparr>pid := None\<rparr>\<rparr>"

text \<open>The signal a stop asks for: the kill signal when forced, the interrupt signal otherwise.\<close>

definition stop_signal :: "bool option \<Rightarrow> signal" where
  "stop_signal force = (if force = Some True then SIGKILL else SIGINT)"

text \<open>
  \<open>svc1\<close> is the service after the endpoint step of a start that did not raise: the
  service itself when it has no endpoint, else the service with its endpoint prepared.
\<close>

definition endpoint_prepared :: "os_world \<Rightarrow> LocalDaemonService \<Rightarrow> LocalDaemonService \<Rightarrow> bool" where
  "endpoint_prepared w svc svc1 =
     (case endpoint svc of
        None \<Rightarrow> svc1 = svc
      | Some ep \<Rightarrow> fst (prepare_for_start w ep) = None
                   \<and> svc1 = svc\<lparr>endpoint := Some (snd (prepare_for_start w ep))\<rparr>)"

section \<open>Example machines, endpoints and services\<close>

definition ex_reply :: "string \<Rightarrow> int option \<Rightarrow> head_outcome" where
  "ex_reply u t =
     (if u = ''http://localhost:8080/'' then ConnectionError ''refused''
      else if u = ''http://localhost:8081/'' then Response 200
      else if u = ''http://localhost:8082/'' then Response 404
      else if u = ''http://localhost:8083/'' then Timeout ''read timeout=5''
      else RequestException ''bad url'')"

definition ex_free :: "int \<Rightarrow> bool" where
  "ex_free p = (p \<noteq> 8000 \<and> p \<noteq> 8001 \<and> p \<noteq> 8080)"

text \<open>
  A machine with one process, pid 4242 in process group 4200, on which the ports 8000,
  8001 and 8080 are taken and every signal is accepted.
\<close>

definition ex_world :: os_world where
  "ex_world =
     \<lparr>processes = [4242 \<mapsto> 4200], can_bind = ex_free, head_reply = ex_reply,
      http_requests = [], kill_reply = (\<lambda>pgrp sig. None), signals_sent = [], own_pgid = 100, next_pid = 5000, launched = [],
      sys_executable = ''/usr/bin/python3'', environ = [(''HOME'', ''/root'')],
      next_tempfile = ''/tmp/tmpa1b2c3'', files_written = []\<rparr>"

text \<open>The same machine with every port taken.\<close>

definition ex_world_full :: os_world where
  "ex_world_full = ex_world\<lparr>can_bind := (\<lambda>p. False)\<rparr>"

definition ex_monitor :: HttpEndpointHealthMonitorConfig where
  "ex_monitor = default_monitor_config None"

text \<open>
  An endpoint with the given configured port, \<^verbatim>\<open>allocate_port\<close> flag, port of the last
  run and URI.
\<close>

definition mk_endpoint ::
  "int option \<Rightarrow> bool option \<Rightarrow> int option \<Rightarrow> string option \<Rightarrow> LocalDaemonServiceEndpoint" where
  "mk_endpoint cp ap sp u =
     \<lparr>endpoint_config = \<lparr>config_protocol = Some HTTP, config_port = cp, allocate_port = ap\<rparr>,
      endpoint_status = \<lparr>status_protocol = None, hostname = None, status_port = sp, uri = u\<rparr>,
      monitor = Some ex_monitor\<rparr>"

definition mk_service :: "int option \<Rightarrow> LocalDaemonServiceEndpoint option \<Rightarrow> LocalDaemonService" where
  "mk_service p ep = \<lparr>status = \<lparr>state = INACTIVE, last_error = [], pid = p\<rparr>, endpoint = ep\<rparr>"

lemmas ex_defs =
  ex_reply_def ex_free_def ex_world_def ex_world_full_def ex_monitor_def
  default_monitor_config_def DEFAULT_HTTP_HEALTHCHECK_TIMEOUT_def mk_endpoint_def mk_service_def

section \<open>The port lookup\<close>

lemma scan_ports_found:
  "lo \<le> r \<Longrightarrow> r < stop \<Longrightarrow> port_is_available w r = Inr True \<Longrightarrow>
   (\<forall>p. lo \<le> p \<and> p < r \<longrightarrow> port_is_available w p = Inr False) \<Longrightarrow>
   scan_ports w lo stop = Inr (Some r)"
proof (induction w lo stop rule: scan_ports.induct)
  case (1 w port stop)
  show ?case
  proof (cases "port = r")
    case True
    with "1.prems" show ?thesis by (simp add: scan_ports.simps)
  next
    case False
    with "1.prems" have busy: "port_is_available w port = Inr False" and lt: "port + 1 \<le> r"
      by auto
    have "scan_ports w (port + 1) stop = Inr (Some r)"
      using "1.IH"[of False] busy lt "1.prems" by auto
    with busy "1.prems" show ?thesis by (simp add: scan_ports.simps[of w port stop])
  qed
qed

lemma scan_ports_none:
  "(\<forall>p. lo \<le> p \<and> p < stop \<longrightarrow> port_is_available w p = Inr False) \<Longrightarrow>
   scan_ports w lo stop = Inr None"
proof (induction w lo stop rule: scan_ports.induct)
  case (1 w port stop)
  show ?case
  proof (cases "stop \<le> port")
    case True
    then show ?thesis by (simp add: scan_ports.simps)
  next
    case False
    with "1.prems" have busy: "port_is_available w port = Inr False" by auto
    have "scan_ports w (port + 1) stop = Inr None"
      using "1.IH"[of False] busy False "1.prems" by auto
    with busy False show ?thesis by (simp add: scan_ports.simps[of w port stop])
  qed
qed

lemma lookup_in_range_first:
  assumes "first_free_in_range w r"
  shows "lookup_in_range w = Inr r"
proof -
  from assms have r: "8000 \<le> r" "r < 65535" "can_bind w r"
    and busy: "\<forall>p. 8000 \<le> p \<and> p < r \<longrightarrow> \<not> can_bind w p"
    by (auto simp: first_free_in_range_def)
  have a: "port_is_available w r = Inr True"
    using r by (simp add: port_is_available_def)
  have b: "\<forall>p. 8000 \<le> p \<and> p < r \<longrightarrow> port_is_available w p = Inr False"
    using busy r by (auto simp: port_is_available_def)
  have "scan_ports w 8000 65535 = Inr (Some r)"
    using scan_ports_found[OF r(1) r(2) a b] .
  then show ?thesis by (simp add: lookup_in_range_def SERVICE_PORT_RANGE_def)
qed

lemma lookup_in_range_exhausted:
  assumes "range_exhausted w"
  shows "lookup_in_range w =
           Inl (IOError [PStr ''No free TCP ports found in the range %d - %d'',
                         PInt 8000, PInt 65535])"
proof -
  have "\<forall>p. 8000 \<le> p \<and> p < 65535 \<longrightarrow> port_is_available w p = Inr False"
    using assms by (auto simp: range_exhausted_def port_is_available_def)
  then have "scan_ports w 8000 65535 = Inr None"
    by (rule scan_ports_none)
  then show ?thesis by (simp add: lookup_in_range_def SERVICE_PORT_RANGE_def)
qed

lemma lookup_last_used_reuse:
  "port_free w (status_port (endpoint_status ep)) \<Longrightarrow>
   lookup_last_used w ep = Inr (the (status_port (endpoint_status ep)))"
  by (simp add: lookup_last_used_def port_free_def)

lemma lookup_last_used_scan:
  "no_last_port w ep \<Longrightarrow> lookup_last_used w ep = lookup_in_range w"
  by (auto simp: lookup_last_used_def no_last_port_def port_busy_def)

lemma lookup_free_port_continue:
  "may_continue w ep \<Longrightarrow> lookup_free_port w ep = lookup_last_used w ep"
  by (auto simp: lookup_free_port_def may_continue_def port_busy_def)

text \<open>The lookup reads the configuration and the port of the status, nothing else.\<close>

lemma lookup_free_port_status_frame:
  "lookup_free_port w (ep\<lparr>endpoint_status := (endpoint_status ep)
                          \<lparr>status_protocol := a, hostname := b\<rparr>\<rparr>) = lookup_free_port w ep"
  by (simp add: lookup_free_port_def lookup_last_used_def split: sum.split bool.split)

lemma prepare_for_start_lookup:
  "prepare_for_start w ep =
     (let ep1 = ep\<lparr>endpoint_status := (endpoint_status ep)
                     \<lparr>status_protocol := config_protocol (endpoint_config ep),
                      hostname := Some ''localhost''\<rparr>\<rparr>
      in (case lookup_free_port w ep of
            Inl e \<Rightarrow> (Some e, ep1)
          | Inr port \<Rightarrow>
              (None, ep1\<lparr>endpoint_status := (endpoint_status ep1)\<lparr>status_port := Some port\<rparr>\<rparr>)))"
  by (simp add: prepare_for_start_def Let_def lookup_free_port_status_frame)

lemma prepare_for_start_port:
  "lookup_free_port w ep = Inr p \<Longrightarrow>
   fst (prepare_for_start w ep) = None
   \<and> status_port (endpoint_status (snd (prepare_for_start w ep))) = Some p"
  by (simp add: prepare_for_start_lookup Let_def)

lemma prepare_for_start_error:
  "lookup_free_port w ep = Inl e \<Longrightarrow> fst (prepare_for_start w ep) = Some e"
  by (simp add: prepare_for_start_lookup Let_def)

text \<open>
  C2. The port lookup follows a fixed order of preference. A configured port that is free
  is the result. When the lookup may go on and the port of the status is free, that port
  is the result. When the lookup may go on and the status offers no port, the result is
  the first free port of the range, scanned upwards from 8000 (the range of the source,
  which ends before 65535). \<^verbatim>\<open>prepare_for_start\<close> writes the port found to the status.
\<close>

theorem lookup_free_port_preference_order:
  "(port_free w (config_port (endpoint_config ep)) \<longrightarrow>
      lookup_free_port w ep = Inr (the (config_port (endpoint_config ep))))
   \<and> (may_continue w ep \<and> port_free w (status_port (endpoint_status ep)) \<longrightarrow>
      lookup_free_port w ep = Inr (the (status_port (endpoint_status ep))))
   \<and> (may_continue w ep \<and> no_last_port w ep \<and> first_free_in_range w r \<longrightarrow>
      lookup_free_port w ep = Inr r)
   \<and> (lookup_free_port w ep = Inr p \<longrightarrow>
      fst (prepare_for_start w ep) = None
      \<and> status_port (endpoint_status (snd (prepare_for_start w ep))) = Some p)"
proof (intro conjI impI)
  assume "port_free w (config_port (endpoint_config ep))"
  then show "lookup_free_port w ep = Inr (the (config_port (endpoint_config ep)))"
    by (simp add: lookup_free_port_def port_free_def)
next
  assume "may_continue w ep \<and> port_free w (status_port (endpoint_status ep))"
  then show "lookup_free_port w ep = Inr (the (status_port (endpoint_status ep)))"
    by (simp add: lookup_free_port_continue lookup_last_used_reuse)
next
  assume "may_continue w ep \<and> no_last_port w ep \<and> first_free_in_range w r"
  then show "lookup_free_port w ep = Inr r"
    by (simp add: lookup_free_port_continue lookup_last_used_scan lookup_in_range_first)
next
  assume "lookup_free_port w ep = Inr p"
  then show "fst (prepare_for_start w ep) = None"
    by (simp add: prepare_for_start_port)
next
  assume "lookup_free_port w ep = Inr p"
  then show "status_port (endpoint_status (snd (prepare_for_start w ep))) = Some p"
    by (simp add: prepare_for_start_port)
qed

theorem lookup_free_port_preference_order_witness:
  "lookup_free_port ex_world (mk_endpoint (Some 9000) (Some False) (Some 8085) None) = Inr 9000
   \<and> lookup_free_port ex_world (mk_endpoint (Some 8080) (Some True) (Some 8085) None) = Inr 8085
   \<and> lookup_free_port ex_world (mk_endpoint None (Some True) (Some 8080) None) = Inr 8002
   \<and> status_port (endpoint_status (snd (prepare_for_start ex_world
        (mk_endpoint (Some 9000) (Some False) (Some 8085) None)))) = Some 9000"
proof -
  let ?a = "mk_endpoint (Some 9000) (Some False) (Some 8085) None"
  let ?b = "mk_endpoint (Some 8080) (Some True) (Some 8085) None"
  let ?c = "mk_endpoint None (Some True) (Some 8080) None"
  have a: "port_free ex_world (config_port (endpoint_config ?a))"
    by (simp add: port_free_def port_is_available_def ex_defs)
  have b: "may_continue ex_world ?b \<and> port_free ex_world (status_port (endpoint_status ?b))"
    by (simp add: may_continue_def port_busy_def port_free_def port_is_available_def ex_defs)
  have "\<forall>p\<in>{8000..<8002::int}. p = 8000 \<or> p = 8001"
    by auto
  then have c: "may_continue ex_world ?c \<and> no_last_port ex_world ?c
                \<and> first_free_in_range ex_world 8002"
    by (simp add: may_continue_def no_last_port_def port_busy_def first_free_in_range_def
        port_is_available_def ex_defs)
  have ra: "lookup_free_port ex_world ?a = Inr 9000"
    using a lookup_free_port_preference_order[of ex_world ?a 8002 9000]
    by (simp add: mk_endpoint_def)
  have rb: "lookup_free_port ex_world ?b = Inr 8085"
    using b lookup_free_port_preference_order[of ex_world ?b 8002 8085]
    by (simp add: mk_endpoint_def)
  have rc: "lookup_free_port ex_world ?c = Inr 8002"
    using c lookup_free_port_preference_order[of ex_world ?c 8002 8002]
    by simp
  have rd: "status_port (endpoint_status (snd (prepare_for_start ex_world ?a))) = Some 9000"
    using ra lookup_free_port_preference_order[of ex_world ?a 8002 9000] by simp
  from ra rb rc rd show ?thesis by simp
qed

section \<open>The status check\<close>

text \<open>
  C4. \<^verbatim>\<open>check_status\<close> has no side effect: whatever the state before, it returns a
  pair of a state and an optional message, and it leaves the service, with its status
  record and the pid in it, and the machine as they were.
\<close>

theorem check_status_no_mutation:
  "snd (check_status (w, svc)) = (w, svc)
   \<and> status (snd (snd (check_status (w, svc)))) = status svc
   \<and> pid (status (snd (snd (check_status (w, svc))))) = pid (status svc)"
  by (simp add: check_status_def)

theorem check_status_no_mutation_witness:
  "check_status (ex_world, mk_service (Some 4242) None)
     = ((ACTIVE, None), (ex_world, mk_service (Some 4242) None))"
  using check_status_no_mutation[of ex_world "mk_service (Some 4242) None"]
  by (simp add: check_status_def pid_exists_def ex_defs)

text \<open>
  C1, as the property is stated, fails: \<^verbatim>\<open>check_status\<close> of the local daemon service
  looks at the process only. In the example the process 4242 exists and the monitor of the
  endpoint reports \<^verbatim>\<open>ERROR\<close> (the connection is refused), and \<^verbatim>\<open>check_status\<close>
  returns \<^verbatim>\<open>ACTIVE\<close> without a message.
\<close>

theorem check_status_ignores_endpoint_counterexample:
  "fst (check_endpoint_status ex_monitor ex_world
          (mk_endpoint (Some 8080) (Some True) (Some 8080) (Some ''http://localhost:8080'')))
     = (ERROR, Some ''cannot connect to service API: refused'')
   \<and> fst (check_status (ex_world, mk_service (Some 4242)
          (Some (mk_endpoint (Some 8080) (Some True) (Some 8080) (Some ''http://localhost:8080'')))))
     = (ACTIVE, None)"
  by (simp add: check_endpoint_status_def get_healthcheck_uri_def requests_head_def
      check_status_def pid_exists_def ex_defs)

text \<open>
  C1, amended. \<^verbatim>\<open>check_status\<close> reports the liveness of the daemon process and nothing
  else: for every service state, when no pid is recorded or no process has the recorded
  pid it returns \<^verbatim>\<open>ERROR\<close> with "service daemon is not running"; otherwise it returns
  \<^verbatim>\<open>ACTIVE\<close> and no message, with or without an endpoint and whatever the health of the
  endpoint. It never probes the endpoint: the machine, with its list of requests sent, is
  left as it was.
\<close>

theorem check_status_process_only:
  "check_status s =
     ((if daemon_alive s then (ACTIVE, None)
       else (ERROR, Some ''service daemon is not running'')), s)"
  by (cases s) (simp add: check_status_def daemon_alive_def)

theorem check_status_process_only_witness:
  "check_status (ex_world, mk_service (Some 4242)
      (Some (mk_endpoint (Some 8080) (Some True) (Some 8080) (Some ''http://localhost:8080''))))
     = ((ACTIVE, None), (ex_world, mk_service (Some 4242)
      (Some (mk_endpoint (Some 8080) (Some True) (Some 8080) (Some ''http://localhost:8080'')))))
   \<and> check_status (ex_world, mk_service (Some 77) None)
     = ((ERROR, Some ''service daemon is not running''), (ex_world, mk_service (Some 77) None))
   \<and> check_status (ex_world, mk_service None None)
     = ((ERROR, Some ''service daemon is not running''), (ex_world, mk_service None None))"
proof -
  let ?ep = "mk_endpoint (Some 8080) (Some True) (Some 8080) (Some ''http://localhost:8080'')"
  have a: "daemon_alive (ex_world, mk_service (Some 4242) (Some ?ep))"
    by (simp add: daemon_alive_def pid_exists_def ex_defs)
  have b: "\<not> daemon_alive (ex_world, mk_service (Some 77) None)"
    by (simp add: daemon_alive_def pid_exists_def ex_defs)
  have c: "\<not> daemon_alive (ex_world, mk_service None None)"
    by (simp add: daemon_alive_def pid_exists_def ex_defs)
  show ?thesis
    using a b c
      check_status_process_only[of "(ex_world, mk_service (Some 4242) (Some ?ep))"]
      check_status_process_only[of "(ex_world, mk_service (Some 77) None)"]
      check_status_process_only[of "(ex_world, mk_service None None)"]
    by simp
qed

section \<open>The HTTP monitor\<close>

text \<open>
  C8. For every endpoint whose status has no URI (none, or the empty string), the HTTP
  monitor returns \<^verbatim>\<open>ERROR\<close> with "No healthcheck URI available" and sends no request:
  the machine is unchanged.
\<close>

theorem http_monitor_no_uri:
  "\<not> truthy_str (uri (endpoint_status ep)) \<Longrightarrow>
   check_endpoint_status config w ep = ((ERROR, Some ''No healthcheck URI available''), w)
   \<and> http_requests (snd (check_endpoint_status config w ep)) = http_requests w"
  by (simp add: check_endpoint_status_def get_healthcheck_uri_def)

theorem http_monitor_no_uri_witness:
  "check_endpoint_status ex_monitor ex_world (mk_endpoint (Some 8080) (Some True) None None)
     = ((ERROR, Some ''No healthcheck URI available''), ex_world)
   \<and> check_endpoint_status ex_monitor ex_world (mk_endpoint (Some 8080) (Some True) None (Some []))
     = ((ERROR, Some ''No healthcheck URI available''), ex_world)
   \<and> http_requests (snd (check_endpoint_status ex_monitor ex_world
        (mk_endpoint (Some 8080) (Some True) None None))) = []"
proof -
  have a: "\<not> truthy_str (uri (endpoint_status (mk_endpoint (Some 8080) (Some True) None None)))"
    by (simp add: mk_endpoint_def)
  have b: "\<not> truthy_str (uri (endpoint_status (mk_endpoint (Some 8080) (Some True) None (Some []))))"
    by (simp add: mk_endpoint_def)
  show ?thesis
    using http_monitor_no_uri[OF a, of ex_monitor ex_world]
      http_monitor_no_uri[OF b, of ex_monitor ex_world]
    by (simp add: ex_world_def)
qed

lemma check_endpoint_status_request:
  "get_healthcheck_uri config ep = Some u \<Longrightarrow> u \<noteq> [] \<Longrightarrow>
   check_endpoint_status config w ep =
     ((case head_reply w u (http_timeout config) of
         Response status_code \<Rightarrow>
           if Some status_code = http_status_code config then (ACTIVE, None)
           else (ERROR, Some (''service endpoint healthcheck returned HTTP status code ''
                                @ str_int status_code))
       | ConnectionError e \<Rightarrow> (ERROR, Some (''cannot connect to service API: '' @ e))
       | Timeout e \<Rightarrow> (ERROR, Some (''service API healthcheck request timed out: '' @ e))
       | RequestException e \<Rightarrow>
           (ERROR, Some (''unexpected error encountered while checking ''
                           @ ''the service API status: '' @ e))),
      w\<lparr>http_requests := http_requests w @ [(u, http_timeout config)]\<rparr>)"
  by (simp add: check_endpoint_status_def requests_head_def split: head_outcome.split)

lemma get_healthcheck_uri_resolvable:
  "truthy_str (uri (endpoint_status ep)) \<Longrightarrow>
   \<exists>u. get_healthcheck_uri config ep = Some u \<and> u \<noteq> []"
  by (cases "uri (endpoint_status ep)") (simp_all add: get_healthcheck_uri_def)

text \<open>
  C9. With a healthcheck URI (which is then not empty) the monitor sends one HEAD request
  to it with the configured timeout. A response with the expected status code (200 by
  default) gives \<^verbatim>\<open>ACTIVE\<close> and no message; a response with another code gives
  \<^verbatim>\<open>ERROR\<close> with a message that ends with this code in decimal; a connection error,
  a timeout and any other request error give \<^verbatim>\<open>ERROR\<close> each with a message of its own,
  and no two of the three messages are equal, whatever the texts of the exceptions.
\<close>

theorem http_monitor_outcomes:
  assumes "get_healthcheck_uri config ep = Some u"
  shows
  "u \<noteq> []
   \<and> http_status_code (default_monitor_config path) = Some 200
   \<and> (head_reply w u (http_timeout config) = Response c \<and> http_status_code config = Some c \<longrightarrow>
        fst (check_endpoint_status config w ep) = (ACTIVE, None))
   \<and> (head_reply w u (http_timeout config) = Response c \<and> http_status_code config \<noteq> Some c \<longrightarrow>
        fst (check_endpoint_status config w ep)
          = (ERROR, Some (''service endpoint healthcheck returned HTTP status code '' @ str_int c)))
   \<and> (head_reply w u (http_timeout config) = ConnectionError e \<longrightarrow>
        fst (check_endpoint_status config w ep)
          = (ERROR, Some (''cannot connect to service API: '' @ e)))
   \<and> (head_reply w u (http_timeout config) = Timeout e \<longrightarrow>
        fst (check_endpoint_status config w ep)
          = (ERROR, Some (''service API healthcheck request timed out: '' @ e)))
   \<and> (head_reply w u (http_timeout config) = RequestException e \<longrightarrow>
        fst (check_endpoint_status config w ep)
          = (ERROR, Some (''unexpected error encountered while checking the service API status: '' @ e)))
   \<and> http_requests (snd (check_endpoint_status config w ep))
        = http_requests w @ [(u, http_timeout config)]
   \<and> ''cannot connect to service API: '' @ e1 \<noteq> ''service API healthcheck request timed out: '' @ e2
   \<and> ''cannot connect to service API: '' @ e1
        \<noteq> ''unexpected error encountered while checking the service API status: '' @ e3
   \<and> ''service API healthcheck request timed out: '' @ e2
        \<noteq> ''unexpected error encountered while checking the service API status: '' @ e3"
proof -
  from assms have ne: "u \<noteq> []"
    by (cases "uri (endpoint_status ep)") (auto simp: get_healthcheck_uri_def split: if_splits)
  note eq = check_endpoint_status_request[OF assms ne, of w]
  have d: "http_status_code (default_monitor_config path) = Some 200"
    by (simp add: default_monitor_config_def)
  show ?thesis
    using ne d by (auto simp: eq)
qed


theorem http_monitor_outcomes_witness:
  "fst (check_endpoint_status ex_monitor ex_world
          (mk_endpoint None None (Some 8081) (Some ''http://localhost:8081''))) = (ACTIVE, None)
   \<and> fst (check_endpoint_status ex_monitor ex_world
          (mk_endpoint None None (Some 8082) (Some ''http://localhost:8082'')))
        = (ERROR, Some ''service endpoint healthcheck returned HTTP status code 404'')
   \<and> fst (check_endpoint_status ex_monitor ex_world
          (mk_endpoint None None (Some 8080) (Some ''http://localhost:8080'')))
        = (ERROR, Some ''cannot connect to service API: refused'')
   \<and> fst (check_endpoint_status ex_monitor ex_world
          (mk_endpoint None None (Some 8083) (Some ''http://localhost:8083'')))
        = (ERROR, Some ''service API healthcheck request timed out: read timeout=5'')
   \<and> fst (check_endpoint_status ex_monitor ex_world
          (mk_endpoint None None (Some 8084) (Some ''http://localhost:8084'')))
        = (ERROR, Some ''unexpected error encountered while checking the service API status: bad url'')
   \<and> http_requests (snd (check_endpoint_status ex_monitor ex_world
          (mk_endpoint None None (Some 8081) (Some ''http://localhost:8081''))))
        = [(''http://localhost:8081/'', Some 5)]"
proof -
  let ?ep = "\<lambda>p u. mk_endpoint None None (Some p) (Some u)"
  have u1: "get_healthcheck_uri ex_monitor (?ep 8081 ''http://localhost:8081'')
              = Some ''http://localhost:8081/''"
    and u2: "get_healthcheck_uri ex_monitor (?ep 8082 ''http://localhost:8082'')
              = Some ''http://localhost:8082/''"
    and u0: "get_healthcheck_uri ex_monitor (?ep 8080 ''http://localhost:8080'')
              = Some ''http://localhost:8080/''"
    and u3: "get_healthcheck_uri ex_monitor (?ep 8083 ''http://localhost:8083'')
              = Some ''http://localhost:8083/''"
    and u4: "get_healthcheck_uri ex_monitor (?ep 8084 ''http://localhost:8084'')
              = Some ''http://localhost:8084/''"
    by (simp_all add: get_healthcheck_uri_def ex_defs)
  have r: "head_reply ex_world ''http://localhost:8081/'' (Some 5) = Response 200"
    "head_reply ex_world ''http://localhost:8082/'' (Some 5) = Response 404"
    "head_reply ex_world ''http://localhost:8080/'' (Some 5) = ConnectionError ''refused''"
    "head_reply ex_world ''http://localhost:8083/'' (Some 5) = Timeout ''read timeout=5''"
    "head_reply ex_world ''http://localhost:8084/'' (Some 5) = RequestException ''bad url''"
    by (simp_all add: ex_defs)
  have c: "http_status_code ex_monitor = Some 200" "http_timeout ex_monitor = Some 5"
    "http_requests ex_world = []"
    by (simp_all add: ex_defs)
  have s: "str_int 404 = ''404''"
    by (simp add: str_int_def str_nat.simps digit_char_def)
  show ?thesis
    using http_monitor_outcomes[OF u1, where w = ex_world and c = 200]
      http_monitor_outcomes[OF u2, where w = ex_world and c = 404]
      http_monitor_outcomes[OF u0, where w = ex_world and e = "''refused''"]
      http_monitor_outcomes[OF u3, where w = ex_world and e = "''read timeout=5''"]
      http_monitor_outcomes[OF u4, where w = ex_world and e = "''bad url''"]
    by (simp add: r c s)
qed

section \<open>Failures of the port lookup\<close>

lemma provision_not_alive_error:
  assumes "\<not> daemon_alive (w, svc)" and "endpoint svc = Some ep"
    and "lookup_free_port w ep = Inl e"
  shows "provision daemon_cmd (w, svc)
           = (Some e, (w, svc\<lparr>endpoint := Some (snd (prepare_for_start w ep))\<rparr>))"
proof -
  have "fst (prepare_for_start w ep) = Some e"
    using assms(3) by (rule prepare_for_start_error)
  then obtain ep' where p: "prepare_for_start w ep = (Some e, ep')"
    by (cases "prepare_for_start w ep") simp
  show ?thesis
    using assms(1,2) p
    by (simp add: provision_def start_daemon_def daemon_alive_def)
qed

text \<open>
  C3. A failed allocation raises at once. When the configured port is busy and
  \<^verbatim>\<open>allocate_port\<close> is off, \<^verbatim>\<open>_lookup_free_port\<close> raises an I/O error whose message
  names that port. When the lookup reaches the scan and no port of the range is free, it
  raises the I/O error "No free TCP ports found in the range". Whatever the lookup
  raises, \<^verbatim>\<open>prepare_for_start\<close> raises, and so does \<^verbatim>\<open>provision\<close> of a service with
  this endpoint whose daemon is not alive, before anything is launched.
\<close>

theorem allocation_failure_raises:
  "(port_busy w (config_port (endpoint_config ep))
      \<and> \<not> truthy_bool (allocate_port (endpoint_config ep)) \<longrightarrow>
      lookup_free_port w ep = Inl (port_busy_error (the (config_port (endpoint_config ep)))))
   \<and> (may_continue w ep \<and> no_last_port w ep \<and> range_exhausted w \<longrightarrow>
      lookup_free_port w ep = Inl no_free_port_error)
   \<and> (lookup_free_port w ep = Inl e \<longrightarrow>
      fst (prepare_for_start w ep) = Some e
      \<and> (\<not> daemon_alive (w, svc) \<and> endpoint svc = Some ep \<longrightarrow>
           fst (provision daemon_cmd (w, svc)) = Some e
           \<and> fst (snd (provision daemon_cmd (w, svc))) = w
           \<and> status (snd (snd (provision daemon_cmd (w, svc)))) = status svc))"
proof (intro conjI impI)
  assume "port_busy w (config_port (endpoint_config ep))
            \<and> \<not> truthy_bool (allocate_port (endpoint_config ep))"
  then show "lookup_free_port w ep = Inl (port_busy_error (the (config_port (endpoint_config ep))))"
    by (simp add: lookup_free_port_def port_busy_def port_busy_error_def)
next
  assume "may_continue w ep \<and> no_last_port w ep \<and> range_exhausted w"
  then show "lookup_free_port w ep = Inl no_free_port_error"
    by (simp add: lookup_free_port_continue lookup_last_used_scan lookup_in_range_exhausted
        no_free_port_error_def)
next
  assume "lookup_free_port w ep = Inl e"
  then show "fst (prepare_for_start w ep) = Some e"
    by (rule prepare_for_start_error)
next
  assume "lookup_free_port w ep = Inl e" and "\<not> daemon_alive (w, svc) \<and> endpoint svc = Some ep"
  then show "fst (provision daemon_cmd (w, svc)) = Some e"
    by (simp add: provision_not_alive_error)
next
  assume "lookup_free_port w ep = Inl e" and "\<not> daemon_alive (w, svc) \<and> endpoint svc = Some ep"
  then show "fst (snd (provision daemon_cmd (w, svc))) = w"
    by (simp add: provision_not_alive_error)
next
  assume "lookup_free_port w ep = Inl e" and "\<not> daemon_alive (w, svc) \<and> endpoint svc = Some ep"
  then show "status (snd (snd (provision daemon_cmd (w, svc)))) = status svc"
    by (simp add: provision_not_alive_error)
qed

lemma str_int_8080: "str_int 8080 = ''8080''"
  by (simp add: str_int_def str_nat.simps digit_char_def)

theorem allocation_failure_raises_witness:
  "lookup_free_port ex_world (mk_endpoint (Some 8080) (Some False) (Some 8085) None)
     = Inl (IOError [PStr ''TCP port 8080 is not available.''])
   \<and> lookup_free_port ex_world_full (mk_endpoint (Some 8080) (Some True) (Some 8085) None)
     = Inl (IOError [PStr ''No free TCP ports found in the range %d - %d'', PInt 8000, PInt 65535])
   \<and> fst (prepare_for_start ex_world (mk_endpoint (Some 8080) (Some False) (Some 8085) None))
     = Some (IOError [PStr ''TCP port 8080 is not available.''])
   \<and> fst (provision (get_daemon_cmd (\<lambda>svc. ''{}''))
            (ex_world, mk_service None (Some (mk_endpoint (Some 8080) (Some False) (Some 8085) None))))
     = Some (IOError [PStr ''TCP port 8080 is not available.''])
   \<and> fst (provision (get_daemon_cmd (\<lambda>svc. ''{}''))
            (ex_world_full, mk_service None (Some (mk_endpoint (Some 8080) (Some True) (Some 8085) None))))
     = Some (IOError [PStr ''No free TCP ports found in the range %d - %d'', PInt 8000, PInt 65535])"
proof -
  let ?a = "mk_endpoint (Some 8080) (Some False) (Some 8085) None"
  let ?b = "mk_endpoint (Some 8080) (Some True) (Some 8085) None"
  let ?cmd = "get_daemon_cmd (\<lambda>svc. ''{}'')"
  have a: "port_busy ex_world (config_port (endpoint_config ?a))
             \<and> \<not> truthy_bool (allocate_port (endpoint_config ?a))"
    by (simp add: port_busy_def port_is_available_def ex_defs)
  have b: "may_continue ex_world_full ?b \<and> no_last_port ex_world_full ?b
             \<and> range_exhausted ex_world_full"
    by (simp add: may_continue_def no_last_port_def range_exhausted_def port_busy_def
        port_is_available_def ex_defs)
  have sa: "\<not> daemon_alive (ex_world, mk_service None (Some ?a))
              \<and> endpoint (mk_service None (Some ?a)) = Some ?a"
    by (simp add: daemon_alive_def ex_defs)
  have sb: "\<not> daemon_alive (ex_world_full, mk_service None (Some ?b))
              \<and> endpoint (mk_service None (Some ?b)) = Some ?b"
    by (simp add: daemon_alive_def ex_defs)
  have ea: "lookup_free_port ex_world ?a = Inl (IOError [PStr ''TCP port 8080 is not available.''])"
    using a allocation_failure_raises[of ex_world ?a]
    by (simp add: port_busy_error_def str_int_8080 mk_endpoint_def)
  have eb: "lookup_free_port ex_world_full ?b
              = Inl (IOError [PStr ''No free TCP ports found in the range %d - %d'',
                              PInt 8000, PInt 65535])"
    using b allocation_failure_raises[of ex_world_full ?b]
    by (simp add: no_free_port_error_def)
  have pa: "fst (prepare_for_start ex_world ?a) = Some (IOError [PStr ''TCP port 8080 is not available.''])
            \<and> fst (provision ?cmd (ex_world, mk_service None (Some ?a)))
                = Some (IOError [PStr ''TCP port 8080 is not available.''])"
    using ea sa allocation_failure_raises[of ex_world ?a _ "mk_service None (Some ?a)" ?cmd]
    by simp
  have pb: "fst (provision ?cmd (ex_world_full, mk_service None (Some ?b)))
                = Some (IOError [PStr ''No free TCP ports found in the range %d - %d'',
                              PInt 8000, PInt 65535])"
    using eb sb allocation_failure_raises[of ex_world_full ?b _ "mk_service None (Some ?b)" ?cmd]
    by simp
  from ea eb pa pb show ?thesis by simp
qed

lemma port_is_available_error:
  "port_is_available w p = Inl e \<Longrightarrow> e = OverflowError"
  by (simp add: port_is_available_def split: if_splits)

lemma scan_ports_error:
  "scan_ports w lo stop = Inl e \<Longrightarrow> e = OverflowError"
proof (induction w lo stop rule: scan_ports.induct)
  case (1 w port stop)
  show ?case
  proof (cases "stop \<le> port")
    case True
    with "1.prems" show ?thesis by (simp add: scan_ports.simps)
  next
    case False
    show ?thesis
    proof (cases "port_is_available w port")
      case (Inl x)
      with False "1.prems" show ?thesis
        by (simp add: scan_ports.simps[of w port stop] port_is_available_error)
    next
      case (Inr b)
      with False "1.prems" "1.IH"[of b] show ?thesis
        by (cases b) (simp_all add: scan_ports.simps[of w port stop])
    qed
  qed
qed

lemma lookup_in_range_error:
  "lookup_in_range w = Inl e \<Longrightarrow> e = OverflowError \<or> e = no_free_port_error"
  by (auto simp: lookup_in_range_def no_free_port_error_def SERVICE_PORT_RANGE_def
      split: sum.splits option.splits dest: scan_ports_error)

lemma lookup_last_used_error:
  "lookup_last_used w ep = Inl e \<Longrightarrow> e = OverflowError \<or> e = no_free_port_error"
  by (auto simp: lookup_last_used_def split: if_splits sum.splits bool.splits
      dest: port_is_available_error lookup_in_range_error)

text \<open>
  C10. When no port is configured (\<^verbatim>\<open>None\<close> or 0), \<^verbatim>\<open>allocate_port\<close> plays no part:
  the lookup gives the same result for every value of the flag, it never raises the
  error of a busy configured port, and the reuse of the port of the status and the scan
  of the range are carried out, also with the flag off.
\<close>

theorem no_preferred_port_ignores_allocate_port:
  assumes "\<not> truthy_int (config_port (endpoint_config ep))"
  shows
  "lookup_free_port w (ep\<lparr>endpoint_config := (endpoint_config ep)\<lparr>allocate_port := a\<rparr>\<rparr>)
     = lookup_free_port w ep
   \<and> lookup_free_port w ep \<noteq> Inl (port_busy_error q)
   \<and> (port_free w (status_port (endpoint_status ep)) \<longrightarrow>
        lookup_free_port w ep = Inr (the (status_port (endpoint_status ep))))
   \<and> (no_last_port w ep \<and> first_free_in_range w r \<longrightarrow> lookup_free_port w ep = Inr r)
   \<and> (no_last_port w ep \<and> range_exhausted w \<longrightarrow> lookup_free_port w ep = Inl no_free_port_error)"
proof -
  have c: "may_continue w ep"
    using assms by (simp add: may_continue_def)
  have eq: "lookup_free_port w ep = lookup_last_used w ep"
    using c by (rule lookup_free_port_continue)
  have 1: "lookup_free_port w (ep\<lparr>endpoint_config := (endpoint_config ep)\<lparr>allocate_port := a\<rparr>\<rparr>)
             = lookup_free_port w ep"
    using assms
    by (simp add: lookup_free_port_def lookup_last_used_def split: sum.split bool.split)
  have 2: "lookup_free_port w ep \<noteq> Inl (port_busy_error q)"
  proof
    assume "lookup_free_port w ep = Inl (port_busy_error q)"
    then have "lookup_last_used w ep = Inl (port_busy_error q)"
      by (simp add: eq)
    then have "port_busy_error q = OverflowError \<or> port_busy_error q = no_free_port_error"
      by (rule lookup_last_used_error)
    then show False
      by (simp add: port_busy_error_def no_free_port_error_def)
  qed
  have 3: "port_free w (status_port (endpoint_status ep)) \<longrightarrow>
             lookup_free_port w ep = Inr (the (status_port (endpoint_status ep)))"
    by (simp add: eq lookup_last_used_reuse)
  have 4: "no_last_port w ep \<and> first_free_in_range w r \<longrightarrow> lookup_free_port w ep = Inr r"
    by (simp add: eq lookup_last_used_scan lookup_in_range_first)
  have 5: "no_last_port w ep \<and> range_exhausted w \<longrightarrow>
             lookup_free_port w ep = Inl no_free_port_error"
    by (simp add: eq lookup_last_used_scan lookup_in_range_exhausted no_free_port_error_def)
  from 1 2 3 4 5 show ?thesis by blast
qed

theorem no_preferred_port_ignores_allocate_port_witness:
  "lookup_free_port ex_world (mk_endpoint None (Some False) (Some 8085) None) = Inr 8085
   \<and> lookup_free_port ex_world (mk_endpoint (Some 0) (Some False) (Some 8080) None) = Inr 8002
   \<and> lookup_free_port ex_world (mk_endpoint (Some 0) None None None) = Inr 8002
   \<and> lookup_free_port ex_world_full (mk_endpoint None (Some False) None None)
       = Inl (IOError [PStr ''No free TCP ports found in the range %d - %d'', PInt 8000, PInt 65535])"
proof -
  let ?a = "mk_endpoint None (Some False) (Some 8085) None"
  let ?b = "mk_endpoint (Some 0) (Some False) (Some 8080) None"
  let ?c = "mk_endpoint (Some 0) None None None"
  let ?d = "mk_endpoint None (Some False) None None"
  have ha: "\<not> truthy_int (config_port (endpoint_config ?a))"
    and hb: "\<not> truthy_int (config_port (endpoint_config ?b))"
    and hc: "\<not> truthy_int (config_port (endpoint_config ?c))"
    and hd: "\<not> truthy_int (config_port (endpoint_config ?d))"
    by (simp_all add: mk_endpoint_def)
  have fa: "port_free ex_world (status_port (endpoint_status ?a))"
    by (simp add: port_free_def port_is_available_def ex_defs)
  have "\<forall>p\<in>{8000..<8002::int}. p = 8000 \<or> p = 8001"
    by auto
  then have ff: "first_free_in_range ex_world 8002"
    by (simp add: first_free_in_range_def ex_defs)
  have nb: "no_last_port ex_world ?b" and nc: "no_last_port ex_world ?c"
    and nd: "no_last_port ex_world_full ?d"
    by (simp_all add: no_last_port_def port_busy_def port_is_available_def ex_defs)
  have ex: "range_exhausted ex_world_full"
    by (simp add: range_exhausted_def ex_defs)
  show ?thesis
    using fa ff nb nc nd ex
      no_preferred_port_ignores_allocate_port[OF ha, where w = ex_world]
      no_preferred_port_ignores_allocate_port[OF hb, where w = ex_world and r = 8002]
      no_preferred_port_ignores_allocate_port[OF hc, where w = ex_world and r = 8002]
      no_preferred_port_ignores_allocate_port[OF hd, where w = ex_world_full]
    by (simp add: no_free_port_error_def mk_endpoint_def)
qed

section \<open>Stopping the daemon\<close>

text \<open>
  C7. When a pid is recorded and its process exists, \<^verbatim>\<open>deprovision\<close> (that is
  \<^verbatim>\<open>_stop_daemon\<close>) looks up the process group of the pid and addresses one signal to
  that group: the interrupt signal without \<^verbatim>\<open>force\<close>, the kill signal with it. It
  returns, or raises, what \<^verbatim>\<open>os.killpg\<close> does, and leaves the pid in the status.
\<close>

theorem stop_daemon_signals_group:
  assumes "daemon_alive (w, svc)"
  shows "\<exists>pgrp. processes w (the (pid (status svc))) = Some pgrp
           \<and> deprovision force (w, svc)
               = (kill_reply w pgrp (stop_signal force),
                  (w\<lparr>signals_sent := signals_sent w @ [(pgrp, stop_signal force)]\<rparr>, svc))
           \<and> stop_daemon force (w, svc) = deprovision force (w, svc)
           \<and> pid (status (snd (snd (deprovision force (w, svc))))) = pid (status svc)
           \<and> pid (status svc) \<noteq> None"
proof -
  from assms obtain pgrp where g: "processes w (the (pid (status svc))) = Some pgrp"
    by (auto simp: daemon_alive_def pid_exists_def)
  have t: "truthy_bool force = (force = Some True)"
    by (cases force) auto
  have p: "pid (status svc) \<noteq> None"
    using assms by (cases "pid (status svc)") (auto simp: daemon_alive_def)
  have "deprovision force (w, svc)
          = (kill_reply w pgrp (stop_signal force),
             (w\<lparr>signals_sent := signals_sent w @ [(pgrp, stop_signal force)]\<rparr>, svc))"
    using assms g
    by (simp add: deprovision_def stop_daemon_def daemon_alive_def getpgid_def killpg_def
        stop_signal_def t)
  with g p show ?thesis
    by (simp add: deprovision_def)
qed

theorem stop_daemon_signals_group_witness:
  "deprovision (Some False) (ex_world, mk_service (Some 4242) None)
     = (None, (ex_world\<lparr>signals_sent := [(4200, SIGINT)]\<rparr>, mk_service (Some 4242) None))
   \<and> deprovision None (ex_world, mk_service (Some 4242) None)
     = (None, (ex_world\<lparr>signals_sent := [(4200, SIGINT)]\<rparr>, mk_service (Some 4242) None))
   \<and> deprovision (Some True) (ex_world, mk_service (Some 4242) None)
     = (None, (ex_world\<lparr>signals_sent := [(4200, SIGKILL)]\<rparr>, mk_service (Some 4242) None))"
proof -
  have a: "daemon_alive (ex_world, mk_service (Some 4242) None)"
    by (simp add: daemon_alive_def pid_exists_def ex_defs)
  have g: "processes ex_world (the (pid (status (mk_service (Some 4242) None)))) = Some 4200"
    "signals_sent ex_world = []" "kill_reply ex_world = (\<lambda>pgrp sig. None)"
    by (simp_all add: ex_defs)
  show ?thesis
    using stop_daemon_signals_group[OF a, of "Some False"]
      stop_daemon_signals_group[OF a, of None]
      stop_daemon_signals_group[OF a, of "Some True"]
    by (simp add: g stop_signal_def)
qed

text \<open>
  On the path that signals, an exception of \<^verbatim>\<open>os.killpg\<close> is not caught: it leaves
  \<^verbatim>\<open>_stop_daemon\<close>, and the pid stays in the status.
\<close>

lemma stop_daemon_killpg_raises:
  assumes "daemon_alive (w, svc)" and "processes w (the (pid (status svc))) = Some pgrp"
    and "kill_reply w pgrp (if truthy_bool force then SIGKILL else SIGINT) = Some e"
  shows "fst (stop_daemon force (w, svc)) = Some e"
    and "snd (snd (stop_daemon force (w, svc))) = svc"
  using assms
  by (simp_all add: stop_daemon_def daemon_alive_def getpgid_def killpg_def)

text \<open>
  C5, as the property is stated, fails: for a service whose daemon is running,
  \<^verbatim>\<open>deprovision\<close> sends the signal and leaves the pid in the status, after the first
  call and, the process still being there, after the second.
\<close>

theorem deprovision_running_keeps_pid_counterexample:
  "fst (deprovision (Some False) (ex_world, mk_service (Some 4242) None)) = None
   \<and> pid (status (snd (snd (deprovision (Some False) (ex_world, mk_service (Some 4242) None)))))
       = Some 4242
   \<and> pid (status (snd (snd (deprovision (Some False)
        (snd (deprovision (Some False) (ex_world, mk_service (Some 4242) None))))))) = Some 4242"
  by (simp add: deprovision_def stop_daemon_def pid_exists_def getpgid_def killpg_def ex_defs)

text \<open>
  C5, amended. On a service that is already stopped (no pid recorded, or no process with
  the recorded pid) \<^verbatim>\<open>deprovision\<close> raises nothing, changes nothing on the machine and
  leaves the status with the pid cleared; a second call in a row, on whatever the machine
  is by then, again raises nothing, changes nothing and leaves the pid cleared.
\<close>

theorem deprovision_stopped_idempotent:
  assumes "\<not> daemon_alive (w, svc)"
  shows "deprovision force (w, svc) = (None, (w, clear_pid svc))
         \<and> deprovision force2 (w2, clear_pid svc) = (None, (w2, clear_pid svc))
         \<and> pid (status (clear_pid svc)) = None"
proof -
  have 1: "deprovision force (w, svc) = (None, (w, clear_pid svc))"
    using assms
    by (auto simp: deprovision_def stop_daemon_def daemon_alive_def clear_pid_def)
  have 2: "deprovision force2 (w2, clear_pid svc) = (None, (w2, clear_pid svc))"
    by (simp add: deprovision_def stop_daemon_def clear_pid_def)
  have 3: "pid (status (clear_pid svc)) = None"
    by (simp add: clear_pid_def)
  from 1 2 3 show ?thesis by blast
qed

theorem deprovision_stopped_idempotent_witness:
  "deprovision (Some False) (ex_world, mk_service (Some 77) None)
     = (None, (ex_world, mk_service None None))
   \<and> deprovision (Some False) (ex_world, mk_service None None)
     = (None, (ex_world, mk_service None None))
   \<and> deprovision (Some True) (ex_world_full, mk_service None None)
     = (None, (ex_world_full, mk_service None None))
   \<and> pid (status (mk_service None None)) = None"
proof -
  have a: "\<not> daemon_alive (ex_world, mk_service (Some 77) None)"
    by (simp add: daemon_alive_def pid_exists_def ex_defs)
  have c: "clear_pid (mk_service (Some 77) None) = mk_service None None"
    by (simp add: clear_pid_def mk_service_def)
  show ?thesis
    using deprovision_stopped_idempotent[OF a, where force = "Some False"
        and ?force2.0 = "Some False" and ?w2.0 = ex_world]
      deprovision_stopped_idempotent[OF a, where force = "Some False"
        and ?force2.0 = "Some True" and ?w2.0 = ex_world_full]
    by (simp add: c)
qed

section \<open>Starting the daemon\<close>

lemma start_daemon_cases:
  "start_daemon daemon_cmd (w, svc) =
     (if daemon_alive (w, svc) then (None, (w, clear_pid svc))
      else
        (case (case endpoint svc of
                 None \<Rightarrow> (None, svc)
               | Some ep \<Rightarrow>
                   (case prepare_for_start w ep of
                      (r, ep') \<Rightarrow> (r, svc\<lparr>endpoint := Some ep'\<rparr>))) of
           (Some e, svc1) \<Rightarrow> (Some e, (w, svc1))
         | (None, svc1) \<Rightarrow>
             (case daemon_cmd (w, svc1) of
                ((command, command_env), (w2, svc2)) \<Rightarrow>
                  (None, (snd (Popen w2 command command_env True),
                          svc2\<lparr>status := (status svc2)\<lparr>pid := Some (next_pid w2)\<rparr>\<rparr>)))))"
  by (simp add: start_daemon_def daemon_alive_def clear_pid_def Popen_def Let_def
      split: prod.split option.split)

lemma start_daemon_launch:
  assumes "\<not> daemon_alive (w, svc)" and "endpoint_prepared w svc svc1"
    and "daemon_cmd (w, svc1) = ((command, env), (w2, svc2))"
  shows "start_daemon daemon_cmd (w, svc)
           = (None, (snd (Popen w2 command env True),
                     svc2\<lparr>status := (status svc2)\<lparr>pid := Some (next_pid w2)\<rparr>\<rparr>))"
proof (cases "endpoint svc")
  case None
  with assms show ?thesis
    by (simp add: start_daemon_cases endpoint_prepared_def)
next
  case (Some ep)
  with assms(2) obtain ep' where "prepare_for_start w ep = (None, ep')"
    and "svc1 = svc\<lparr>endpoint := Some ep'\<rparr>"
    by (cases "prepare_for_start w ep") (simp add: endpoint_prepared_def)
  with Some assms(1,3) show ?thesis
    by (simp add: start_daemon_cases)
qed

text \<open>
  C6. When the status holds the pid of an existing process, \<^verbatim>\<open>provision\<close> (that is
  \<^verbatim>\<open>_start_daemon\<close>) only clears the pid: the machine is untouched, so nothing is
  launched, and the endpoint is untouched, so no port is allocated. Otherwise, once the
  endpoint (if there is one) is prepared, the command of the daemon is launched in a new
  session, where the child leads a process group of its own, and the pid of the child is
  recorded in the status.
\<close>

theorem start_daemon_behaviour:
  "(daemon_alive (w, svc) \<longrightarrow>
      provision daemon_cmd (w, svc) = (None, (w, clear_pid svc))
      \<and> pid (status (clear_pid svc)) = None
      \<and> endpoint (clear_pid svc) = endpoint svc)
   \<and> (\<not> daemon_alive (w, svc) \<and> endpoint_prepared w svc svc1
       \<and> daemon_cmd (w, svc1) = ((command, env), (w2, svc2)) \<longrightarrow>
      fst (provision daemon_cmd (w, svc)) = None
      \<and> launched (fst (snd (provision daemon_cmd (w, svc)))) = launched w2 @ [(command, env, True)]
      \<and> processes (fst (snd (provision daemon_cmd (w, svc)))) (next_pid w2) = Some (next_pid w2)
      \<and> pid (status (snd (snd (provision daemon_cmd (w, svc))))) = Some (next_pid w2)
      \<and> endpoint (snd (snd (provision daemon_cmd (w, svc)))) = endpoint svc2)
   \<and> start_daemon daemon_cmd (w, svc) = provision daemon_cmd (w, svc)"
proof -
  have 1: "daemon_alive (w, svc) \<longrightarrow> provision daemon_cmd (w, svc) = (None, (w, clear_pid svc))"
    by (simp add: provision_def start_daemon_cases)
  have 2: "pid (status (clear_pid svc)) = None" "endpoint (clear_pid svc) = endpoint svc"
    by (simp_all add: clear_pid_def)
  have 3: "fst (provision daemon_cmd (w, svc)) = None
      \<and> launched (fst (snd (provision daemon_cmd (w, svc)))) = launched w2 @ [(command, env, True)]
      \<and> processes (fst (snd (provision daemon_cmd (w, svc)))) (next_pid w2) = Some (next_pid w2)
      \<and> pid (status (snd (snd (provision daemon_cmd (w, svc))))) = Some (next_pid w2)
      \<and> endpoint (snd (snd (provision daemon_cmd (w, svc)))) = endpoint svc2"
    if h: "\<not> daemon_alive (w, svc)" "endpoint_prepared w svc svc1"
      "daemon_cmd (w, svc1) = ((command, env), (w2, svc2))"
  proof -
    have "start_daemon daemon_cmd (w, svc)
           = (None, (snd (Popen w2 command env True),
                     svc2\<lparr>status := (status svc2)\<lparr>pid := Some (next_pid w2)\<rparr>\<rparr>))"
      using h(1) h(2) h(3) by (rule start_daemon_launch)
    then show ?thesis
      by (simp add: provision_def Popen_def Let_def)
  qed
  have 4: "start_daemon daemon_cmd (w, svc) = provision daemon_cmd (w, svc)"
    by (simp add: provision_def)
  from 1 2 3 4 show ?thesis by blast
qed

theorem start_daemon_behaviour_witness:
  "provision (get_daemon_cmd (\<lambda>svc. ''{}''))
      (ex_world, mk_service (Some 4242) (Some (mk_endpoint (Some 9000) (Some False) None None)))
     = (None, (ex_world, mk_service None (Some (mk_endpoint (Some 9000) (Some False) None None))))
   \<and> fst (provision (get_daemon_cmd (\<lambda>svc. ''{}''))
      (ex_world, mk_service (Some 77) (Some (mk_endpoint (Some 9000) (Some False) None None)))) = None
   \<and> launched (fst (snd (provision (get_daemon_cmd (\<lambda>svc. ''{}''))
      (ex_world, mk_service (Some 77) (Some (mk_endpoint (Some 9000) (Some False) None None))))))
     = [([''/usr/bin/python3'', ''-m'', ''zenml.services.local.local_daemon_entrypoint'',
          ''--config-file'', ''/tmp/tmpa1b2c3.json''], [(''HOME'', ''/root'')], True)]
   \<and> pid (status (snd (snd (provision (get_daemon_cmd (\<lambda>svc. ''{}''))
      (ex_world, mk_service (Some 77) (Some (mk_endpoint (Some 9000) (Some False) None None)))))))
     = Some 5000
   \<and> processes (fst (snd (provision (get_daemon_cmd (\<lambda>svc. ''{}''))
      (ex_world, mk_service (Some 77) (Some (mk_endpoint (Some 9000) (Some False) None None))))))
       5000 = Some 5000
   \<and> map_option (\<lambda>ep. status_port (endpoint_status ep))
        (endpoint (snd (snd (provision (get_daemon_cmd (\<lambda>svc. ''{}''))
          (ex_world, mk_service (Some 77) (Some (mk_endpoint (Some 9000) (Some False) None None)))))))
     = Some (Some 9000)"
proof -
  let ?ep = "mk_endpoint (Some 9000) (Some False) None None"
  let ?cmd = "get_daemon_cmd (\<lambda>svc. ''{}'')"
  let ?ep' = "snd (prepare_for_start ex_world ?ep)"
  let ?svc1 = "(mk_service (Some 77) (Some ?ep))\<lparr>endpoint := Some ?ep'\<rparr>"
  let ?w2 = "ex_world\<lparr>files_written := [(''/tmp/tmpa1b2c3.json'', ''{}'')]\<rparr>"
  let ?command = "[''/usr/bin/python3'', ''-m'', ''zenml.services.local.local_daemon_entrypoint'',
                  ''--config-file'', ''/tmp/tmpa1b2c3.json'']"
  let ?env = "[(''HOME'', ''/root'')]"
  have a: "daemon_alive (ex_world, mk_service (Some 4242) (Some ?ep))"
    by (simp add: daemon_alive_def pid_exists_def ex_defs)
  have b: "\<not> daemon_alive (ex_world, mk_service (Some 77) (Some ?ep))"
    by (simp add: daemon_alive_def pid_exists_def ex_defs)
  have l: "lookup_free_port ex_world ?ep = Inr 9000"
    by (simp add: lookup_free_port_def port_is_available_def ex_defs)
  have p: "endpoint_prepared ex_world (mk_service (Some 77) (Some ?ep)) ?svc1"
    using prepare_for_start_port[OF l]
    by (simp add: endpoint_prepared_def mk_service_def)
  have c: "?cmd (ex_world, ?svc1) = ((?command, ?env), (?w2, ?svc1))"
    by (simp add: get_daemon_cmd_def ex_world_def Let_def)
  have cp: "clear_pid (mk_service (Some 4242) (Some ?ep)) = mk_service None (Some ?ep)"
    by (simp add: clear_pid_def mk_service_def)
  have e: "status_port (endpoint_status ?ep') = Some 9000"
    using prepare_for_start_port[OF l] by simp
  have w: "launched ?w2 = []" "next_pid ?w2 = 5000"
    by (simp_all add: ex_world_def)
  have r1: "provision ?cmd (ex_world, mk_service (Some 4242) (Some ?ep))
              = (None, (ex_world, mk_service None (Some ?ep)))"
    using a start_daemon_behaviour[where w = ex_world
        and svc = "mk_service (Some 4242) (Some ?ep)" and daemon_cmd = ?cmd]
    by (simp add: cp)
  note r2 = start_daemon_behaviour[where w = ex_world and svc = "mk_service (Some 77) (Some ?ep)"
        and daemon_cmd = ?cmd and ?svc1.0 = ?svc1 and ?w2.0 = ?w2 and ?svc2.0 = ?svc1
        and command = ?command and env = ?env, THEN conjunct2, THEN conjunct1, rule_format,
        OF conjI[OF b conjI[OF p c]]]
  show ?thesis
    using r1 r2 by (simp add: w e)
qed

end
